theory Spec2Isabelle
  imports Main "HOL-Library.List_Lexorder"
begin

section \<open>JavaScript strings\<close>

text \<open>
  A JavaScript string is a sequence of UTF-16 code units. A code unit is written as a
  natural number; \<open>str\<close> turns an ASCII literal into its code units. Strings are compared
  with the lexicographic order of their code units, which is what \<open><\<close> on two
  JavaScript strings computes.
\<close>

type_synonym jsstring = "nat list"

definition str :: "string \<Rightarrow> jsstring" where
  "str s = map of_char s"

text \<open>
  \<open>String.prototype.trim\<close> removes the WhiteSpace and LineTerminator code points of
  ECMAScript from both ends.
\<close>

definition is_whitespace :: "nat \<Rightarrow> bool" where
  "is_whitespace c =
     ((9 \<le> c \<and> c \<le> 13) \<or> c = 32 \<or> c = 160 \<or> c = 5760 \<or> (8192 \<le> c \<and> c \<le> 8202) \<or>
      c = 8232 \<or> c = 8233 \<or> c = 8239 \<or> c = 8287 \<or> c = 12288 \<or> c = 65279)"

definition trim :: "jsstring \<Rightarrow> jsstring" where
  "trim s = rev (dropWhile is_whitespace (rev (dropWhile is_whitespace s)))"

fun startsWith :: "jsstring \<Rightarrow> jsstring \<Rightarrow> bool" where
  "startsWith s [] = True"
| "startsWith [] (p # ps) = False"
| "startsWith (c # cs) (p # ps) = (c = p \<and> startsWith cs ps)"

fun includes_str :: "jsstring \<Rightarrow> jsstring \<Rightarrow> bool" where
  "includes_str [] sub = (sub = [])"
| "includes_str (c # cs) sub = (startsWith (c # cs) sub \<or> includes_str cs sub)"

text \<open>\<open>Number.prototype.toString\<close> on a non-negative integer: its decimal digits.\<close>

function toString :: "nat \<Rightarrow> jsstring" where
  "toString n = (if n < 10 then [48 + n] else toString (n div 10) @ [48 + n mod 10])"
  by pat_completeness auto
termination
  by (relation "measure (\<lambda>n. n)") auto

declare toString.simps [simp del]

text \<open>
  The asynchronous handlers of the components return a promise. \<open>Inr\<close> is the state the
  component has once the promise has resolved; \<open>Inl\<close> would be a rejection.
\<close>

datatype error = ValidationError | NotFoundError | UpstreamError | RateLimitError

text \<open>A value thrown inside a handler: the constructor names the class, the string is its message.\<close>

datatype js_error = Error jsstring | TypeError jsstring | SyntaxError jsstring

text \<open>What a handler writes to the console: \<open>console.log\<close> of a line, \<open>console.error\<close> of a label and the caught value.\<close>

datatype log_entry = Log jsstring | LogError jsstring js_error

section \<open>TaskManager\<close>

datatype priority = Low | Medium | High

datatype status = Pending | In_progress | Completed

fun status_name :: "status \<Rightarrow> jsstring" where
  "status_name Pending = str ''pending''"
| "status_name In_progress = str ''in_progress''"
| "status_name Completed = str ''completed''"

record task =
  task_id :: jsstring
  task_title :: jsstring
  task_description :: "jsstring option"
  task_priority :: priority
  task_status :: status
  task_due_date :: "jsstring option"
  task_created_at :: jsstring

record newTask_form =
  nt_title :: jsstring
  nt_description :: jsstring
  nt_priority :: priority
  nt_due_date :: jsstring

record tm_state =
  tasks :: "task list"
  loading :: bool
  filter_sel :: jsstring
  searchTerm :: jsstring
  showAddTask :: bool
  newTask :: newTask_form

definition newTask_init :: newTask_form where
  "newTask_init =
     \<lparr>nt_title = [], nt_description = [], nt_priority = Medium, nt_due_date = []\<rparr>"

definition tm_init :: tm_state where
  "tm_init =
     \<lparr>tasks = [], loading = True, filter_sel = str ''all'', searchTerm = [],
      showAddTask = False, newTask = newTask_init\<rparr>"

definition mockTasks :: "task list" where
  "mockTasks =
    [\<lparr>task_id = str ''1'', task_title = str ''Review quarterly reports'',
      task_description = Some (str ''Analyze Q4 performance metrics''),
      task_priority = High, task_status = Pending,
      task_due_date = Some (str ''2024-01-20''), task_created_at = str ''2024-01-15''\<rparr>,
     \<lparr>task_id = str ''2'', task_title = str ''Prepare client presentation'',
      task_description = Some (str ''Create slides for next week's meeting''),
      task_priority = High, task_status = In_progress,
      task_due_date = Some (str ''2024-01-18''), task_created_at = str ''2024-01-14''\<rparr>,
     \<lparr>task_id = str ''3'', task_title = str ''Update project documentation'',
      task_description = Some (str ''Add recent changes to the docs''),
      task_priority = Medium, task_status = Pending,
      task_due_date = Some (str ''2024-01-25''), task_created_at = str ''2024-01-13''\<rparr>,
     \<lparr>task_id = str ''4'', task_title = str ''Team one-on-ones'',
      task_description = Some (str ''Schedule individual meetings''),
      task_priority = Medium, task_status = Completed,
      task_due_date = Some (str ''2024-01-16''), task_created_at = str ''2024-01-12''\<rparr>,
     \<lparr>task_id = str ''5'', task_title = str ''Code review'',
      task_description = Some (str ''Review pull requests''),
      task_priority = Low, task_status = Pending,
      task_due_date = None, task_created_at = str ''2024-01-15''\<rparr>]"

text \<open>
  The state of the component; \<open>filter_sel\<close> is its \<open>filter\<close>. \<open>filteredTasks\<close> is recomputed
  by \<open>filterTasks\<close> whenever \<open>tasks\<close>, \<open>filter\<close> or \<open>searchTerm\<close> change, so it is a function
  of the state. \<open>fetchTasks\<close> installs the mock tasks.
\<close>

definition fetchTasks :: "tm_state \<Rightarrow> error + tm_state" where
  "fetchTasks st = Inr (st\<lparr>tasks := mockTasks, loading := False\<rparr>)"

text \<open>
  \<open>filterTasks\<close> computes the displayed list from \<open>tasks\<close>, \<open>filter\<close> and \<open>searchTerm\<close>.
  \<open>String.prototype.toLowerCase\<close> depends on the Unicode case tables and is a parameter.
  An absent description makes the second disjunct \<open>undefined\<close>, which is falsy.
\<close>

definition filterTasks :: "(jsstring \<Rightarrow> jsstring) \<Rightarrow> tm_state \<Rightarrow> task list" where
  "filterTasks toLowerCase st =
     (let filtered = tasks st;
          filtered = (if filter_sel st \<noteq> str ''all''
                      then filter (\<lambda>t. status_name (task_status t) = filter_sel st) filtered
                      else filtered);
          filtered = (if searchTerm st \<noteq> []
                      then filter (\<lambda>t.
                             includes_str (toLowerCase (task_title t)) (toLowerCase (searchTerm st)) \<or>
                             (case task_description t of
                                None \<Rightarrow> False
                              | Some d \<Rightarrow> includes_str (toLowerCase d) (toLowerCase (searchTerm st))))
                           filtered
                      else filtered)
      in filtered)"

text \<open>
  \<open>addTask\<close> reads the form \<open>newTask\<close>. \<open>now\<close> is the reading of \<open>Date.now()\<close> and \<open>isoNow\<close>
  the string \<open>new Date().toISOString()\<close> gives. A blank title returns at once. The new
  task goes to the front of the list: \<open>[task, ...prev]\<close>. An empty due date is stored
  as \<open>undefined\<close>.
\<close>

definition addTask :: "nat \<Rightarrow> jsstring \<Rightarrow> tm_state \<Rightarrow> error + tm_state" where
  "addTask now isoNow st =
     (if trim (nt_title (newTask st)) = [] then Inr st
      else
        let t = \<lparr>task_id = toString now,
                 task_title = nt_title (newTask st),
                 task_description = Some (nt_description (newTask st)),
                 task_priority = nt_priority (newTask st),
                 task_status = Pending,
                 task_due_date = (if nt_due_date (newTask st) = [] then None
                                  else Some (nt_due_date (newTask st))),
                 task_created_at = isoNow\<rparr>
        in Inr (st\<lparr>tasks := t # tasks st,
                   newTask := \<lparr>nt_title = [], nt_description = [], nt_priority = Medium,
                               nt_due_date = []\<rparr>,
                   showAddTask := False\<rparr>))"

text \<open>
  \<open>updateTaskStatus\<close> maps over the list and replaces the status of every task whose id
  is \<open>taskId\<close>. Nothing in its \<open>try\<close> block throws.
\<close>

definition updateTaskStatus :: "jsstring \<Rightarrow> status \<Rightarrow> tm_state \<Rightarrow> error + tm_state" where
  "updateTaskStatus taskId s st =
     Inr (st\<lparr>tasks := map (\<lambda>t. if task_id t = taskId then t\<lparr>task_status := s\<rparr> else t)
                           (tasks st)\<rparr>)"

text \<open>
  The task list renders three buttons for a task \<open>task\<close> of \<open>filteredTasks\<close>: the status
  icon, which calls \<open>updateTaskStatus\<close> with \<open>pending\<close> when the task is completed and
  with \<open>completed\<close> otherwise; Start, rendered when the task is pending; and Complete,
  rendered when the task is in progress.
\<close>

datatype button = StatusIcon | StartButton | CompleteButton

fun button_rendered :: "button \<Rightarrow> task \<Rightarrow> bool" where
  "button_rendered StatusIcon t = True"
| "button_rendered StartButton t = (task_status t = Pending)"
| "button_rendered CompleteButton t = (task_status t = In_progress)"

fun button_status :: "button \<Rightarrow> task \<Rightarrow> status" where
  "button_status StatusIcon t = (if task_status t = Completed then Pending else Completed)"
| "button_status StartButton t = In_progress"
| "button_status CompleteButton t = Completed"

text \<open>
  A click on a button of a displayed task; \<open>None\<close> when the button is not on the page.
  While \<open>loading\<close> holds the component renders a spinner and nothing else.
\<close>

definition click ::
  "(jsstring \<Rightarrow> jsstring) \<Rightarrow> button \<Rightarrow> task \<Rightarrow> tm_state \<Rightarrow> (error + tm_state) option" where
  "click toLowerCase b t st =
     (if \<not> loading st \<and> t \<in> set (filterTasks toLowerCase st) \<and> button_rendered b t
      then Some (updateTaskStatus (task_id t) (button_status b t) st)
      else None)"

text \<open>
  The state of the mounted component: \<open>fetchTasks\<close> runs when it mounts, and the form and
  the buttons are rendered only once it has stored the mock tasks.
\<close>

definition mounted :: tm_state where
  "mounted = tm_init\<lparr>tasks := mockTasks, loading := False\<rparr>"

text \<open>
  Creating a task: the user fills the form (the \<open>onChange\<close> handlers store each field in
  \<open>newTask\<close>) and clicks Add Task. \<open>addTasks\<close> runs a sequence of creations, each with its
  clock readings and its form.
\<close>

fun addTasks :: "(nat \<times> jsstring \<times> newTask_form) list \<Rightarrow> tm_state \<Rightarrow> error + tm_state" where
  "addTasks [] st = Inr st"
| "addTasks ((now, isoNow, form) # rest) st =
     (case addTask now isoNow (st\<lparr>newTask := form\<rparr>) of
        Inl e \<Rightarrow> Inl e
      | Inr st' \<Rightarrow> addTasks rest st')"

text \<open>
  What the user does on the mounted page: create a task, or click a button in a row of
  the displayed list. \<open>ui_run\<close> performs a sequence of such operations; it is \<open>None\<close>
  when an operation is not available on the page.
\<close>

datatype ui_op = CreateTask nat jsstring newTask_form | Click button nat

fun ui_step ::
  "(jsstring \<Rightarrow> jsstring) \<Rightarrow> ui_op \<Rightarrow> tm_state \<Rightarrow> (error + tm_state) option" where
  "ui_step toLowerCase (CreateTask now isoNow form) st =
     (if loading st then None else Some (addTask now isoNow (st\<lparr>newTask := form\<rparr>)))"
| "ui_step toLowerCase (Click b row) st =
     (if row < length (filterTasks toLowerCase st)
      then click toLowerCase b (filterTasks toLowerCase st ! row) st
      else None)"

fun ui_run ::
  "(jsstring \<Rightarrow> jsstring) \<Rightarrow> ui_op list \<Rightarrow> tm_state \<Rightarrow> (error + tm_state) option" where
  "ui_run toLowerCase [] st = Some (Inr st)"
| "ui_run toLowerCase (x # xs) st =
     (case ui_step toLowerCase x st of
        None \<Rightarrow> None
      | Some (Inl e) \<Rightarrow> Some (Inl e)
      | Some (Inr st') \<Rightarrow> ui_run toLowerCase xs st')"

text \<open>The ids that the creations of a sequence of operations give to their tasks.\<close>

fun created_ids :: "ui_op list \<Rightarrow> jsstring list" where
  "created_ids [] = []"
| "created_ids (CreateTask now isoNow form # xs) = toString now # created_ids xs"
| "created_ids (Click b row # xs) = created_ids xs"



definition toLowerCase_ascii :: "jsstring \<Rightarrow> jsstring" where
  "toLowerCase_ascii s = map (\<lambda>c. if 65 \<le> c \<and> c \<le> 90 then c + 32 else c) s"

section \<open>CalendarView\<close>

record event =
  ev_id :: jsstring
  ev_title :: jsstring
  ev_description :: "jsstring option"
  ev_start_time :: jsstring
  ev_end_time :: jsstring
  ev_location :: "jsstring option"

record newEvent_form =
  ne_title :: jsstring
  ne_description :: jsstring
  ne_start_time :: jsstring
  ne_end_time :: jsstring
  ne_location :: jsstring

text \<open>
  The part of the component's state that \<open>addEvent\<close> reads and writes; \<open>loading\<close>,
  \<open>currentDate\<close> and \<open>view\<close> are not touched by it.
\<close>

record cal_state =
  events :: "event list"
  showAddEvent :: bool
  newEvent :: newEvent_form

definition newEvent_init :: newEvent_form where
  "newEvent_init =
     \<lparr>ne_title = [], ne_description = [], ne_start_time = [], ne_end_time = [],
      ne_location = []\<rparr>"

definition cal_init :: cal_state where
  "cal_init = \<lparr>events = [], showAddEvent = False, newEvent = newEvent_init\<rparr>"

text \<open>
  \<open>addEvent\<close> returns at once when the title is blank or a time is the empty string.
  Otherwise it appends the event, \<open>[...prev, event]\<close>, and resets the form. The two times
  are stored as the form has them; they are never compared.
\<close>

definition addEvent :: "nat \<Rightarrow> cal_state \<Rightarrow> error + cal_state" where
  "addEvent now st =
     (if trim (ne_title (newEvent st)) = [] \<or> ne_start_time (newEvent st) = [] \<or>
         ne_end_time (newEvent st) = []
      then Inr st
      else
        let e = \<lparr>ev_id = toString now,
                 ev_title = ne_title (newEvent st),
                 ev_description = Some (ne_description (newEvent st)),
                 ev_start_time = ne_start_time (newEvent st),
                 ev_end_time = ne_end_time (newEvent st),
                 ev_location = Some (ne_location (newEvent st))\<rparr>
        in Inr (st\<lparr>events := events st @ [e],
                   newEvent := \<lparr>ne_title = [], ne_description = [], ne_start_time = [],
                                ne_end_time = [], ne_location = []\<rparr>,
                   showAddEvent := False\<rparr>))"

section \<open>Dashboard\<close>

record dashboard_stats =
  pendingTasks :: nat
  completedToday :: nat
  todayEvents :: nat
  urgentTasks :: nat

record suggestion =
  sug_id :: int
  sug_type :: jsstring
  sug_title :: jsstring
  sug_description :: jsstring
  sug_priority :: jsstring

record dashboard_state =
  stats :: dashboard_stats
  suggestions :: "suggestion list"
  dash_loading :: bool

definition mockSuggestions :: "suggestion list" where
  "mockSuggestions =
    [\<lparr>sug_id = 1, sug_type = str ''schedule_task'',
      sug_title = str ''Schedule high-priority task'',
      sug_description = str ''You have a free slot at 2 PM to work on \"Quarterly Report\"'',
      sug_priority = str ''high''\<rparr>,
     \<lparr>sug_id = 2, sug_type = str ''break_reminder'',
      sug_title = str ''Take a break'',
      sug_description = str ''You've been working for 2 hours. Consider a 15-minute break.'',
      sug_priority = str ''medium''\<rparr>,
     \<lparr>sug_id = 3, sug_type = str ''priority_review'',
      sug_title = str ''Review task priorities'',
      sug_description =
        str ''You have 5 high-priority tasks. Consider redistributing priorities.'',
      sug_priority = str ''low''\<rparr>]"

text \<open>The state once \<open>fetchDashboardData\<close> has stored the mock data.\<close>

definition dashboard_loaded :: dashboard_state where
  "dashboard_loaded =
     \<lparr>stats = \<lparr>pendingTasks = 8, completedToday = 3, todayEvents = 4, urgentTasks = 2\<rparr>,
      suggestions = mockSuggestions, dash_loading = False\<rparr>"

text \<open>The template literal's rendering of an integer.\<close>

definition toString_int :: "int \<Rightarrow> jsstring" where
  "toString_int i = (if i < 0 then 45 # toString (nat (- i)) else toString (nat i))"

text \<open>
  \<open>handleSuggestionAction\<close> logs the id and the action and removes from the list every
  suggestion whose id is \<open>suggestionId\<close>. The log line is the only use of \<open>action\<close>.
\<close>

definition handleSuggestionAction ::
  "int \<Rightarrow> jsstring \<Rightarrow> dashboard_state \<Rightarrow> error + (log_entry list \<times> dashboard_state)" where
  "handleSuggestionAction suggestionId action st =
     Inr ([Log (str ''Suggestion '' @ toString_int suggestionId @ str '' '' @ action)],
          st\<lparr>suggestions := filter (\<lambda>s. sug_id s \<noteq> suggestionId) (suggestions st)\<rparr>)"

section \<open>ChatInterface\<close>

datatype sender = User | Agent

record message =
  msg_id :: jsstring
  msg_content :: jsstring
  msg_sender :: sender
  msg_agent :: "jsstring option"
  msg_timestamp :: nat

record chat_state =
  messages :: "message list"
  inputValue :: jsstring
  isLoading :: bool

text \<open>
  What the request to \<open>/api/chat\<close> brings back is the environment's: \<open>fetch\<close> rejects, or
  gives a response with its \<open>ok\<close> flag, whose \<open>json()\<close> rejects or gives the body. The body
  is \<open>null\<close>, on which reading \<open>data.response\<close> throws a TypeError, or an object read at
  the type the component declares.
\<close>

record chat_data =
  data_response :: jsstring
  data_agent :: "jsstring option"

datatype json_body = JsonNull | JsonObject chat_data

datatype fetch_outcome = FetchRejected js_error | FetchResponse bool "js_error + json_body"

text \<open>
  The body of the \<open>try\<close> block up to the construction of the agent's message: the value it
  reaches, or what it throws.
\<close>

definition chat_request :: "fetch_outcome \<Rightarrow> js_error + chat_data" where
  "chat_request outcome =
     (case outcome of
        FetchRejected e \<Rightarrow> Inl e
      | FetchResponse ok body \<Rightarrow>
          if \<not> ok then Inl (Error (str ''Failed to get response''))
          else (case body of
                  Inl e \<Rightarrow> Inl e
                | Inr JsonNull \<Rightarrow>
                    Inl (TypeError (str ''Cannot read properties of null (reading 'response')''))
                | Inr (JsonObject d) \<Rightarrow> Inr d))"

text \<open>
  The fallback text of the \<open>catch\<close> block. Its bullets are the code unit U+2022 and its
  line breaks the code unit 10.
\<close>

definition fallback_text :: jsstring where
  "fallback_text =
     str ''I'm experiencing some technical difficulties right now, but I'm here to help! You can ask me to:'' @
     [10, 10, 8226] @ str '' Add, complete, or list tasks'' @
     [10, 8226] @ str '' Schedule events or check your calendar'' @
     [10, 8226] @ str '' Explain concepts or provide information'' @
     [10, 8226] @ str '' Give you productivity suggestions'' @
     [10, 10] @ str ''What would you like to try?''"

text \<open>
  The clock readings of one \<open>sendMessage\<close>: \<open>Date.now()\<close> and \<open>new Date()\<close> for the user's
  message, and again for the message that answers it.
\<close>

record send_clock =
  now_user :: nat
  date_user :: nat
  now_reply :: nat
  date_reply :: nat

definition sendMessage ::
  "send_clock \<Rightarrow> fetch_outcome \<Rightarrow> chat_state \<Rightarrow> error + (log_entry list \<times> chat_state)" where
  "sendMessage clock outcome st =
     (if trim (inputValue st) = [] \<or> isLoading st then Inr ([], st)
      else
        let userMessage =
              \<lparr>msg_id = toString (now_user clock), msg_content = inputValue st,
               msg_sender = User, msg_agent = None, msg_timestamp = date_user clock\<rparr>;
            st1 = st\<lparr>messages := messages st @ [userMessage], inputValue := [],
                     isLoading := True\<rparr>
        in case chat_request outcome of
             Inr d \<Rightarrow>
               let agentMessage =
                     \<lparr>msg_id = toString (now_reply clock + 1), msg_content = data_response d,
                      msg_sender = Agent, msg_agent = data_agent d,
                      msg_timestamp = date_reply clock\<rparr>
               in Inr ([], st1\<lparr>messages := messages st1 @ [agentMessage], isLoading := False\<rparr>)
           | Inl e \<Rightarrow>
               let fallbackMessage =
                     \<lparr>msg_id = toString (now_reply clock + 1), msg_content = fallback_text,
                      msg_sender = Agent, msg_agent = Some (str ''MindFlow''),
                      msg_timestamp = date_reply clock\<rparr>
               in Inr ([LogError (str ''Error sending message:'') e],
                       st1\<lparr>messages := messages st1 @ [fallbackMessage], isLoading := False\<rparr>))"

section \<open>Message routing\<close>

datatype agent = MindFlow | TaskFlow | CalendarFlow | InfoFlow

text \<open>
  Modelled from the spec: the orchestrator's \<open>route\<close> and the classification it rests on
  are not in the repository, which holds only prompts that sketch the agents; the chat
  component posts to an endpoint that does not exist. The model follows section 4.3 (a):
  the message is classified against the intent patterns of TaskFlow, CalendarFlow and
  InfoFlow in that order, the first agent with a matching pattern is chosen, and
  MindFlow answers when none matches. A pattern matches a message that contains it, as
  in the sketches of the agents (\<open>"add task" in input\<close>). The patterns are a parameter,
  since the spec calls its table extensible.
\<close>

record intent_patterns =
  taskflow_patterns :: "jsstring list"
  calendarflow_patterns :: "jsstring list"
  infoflow_patterns :: "jsstring list"

text \<open>
  Modelled from the spec: the matching of a message against an agent's intent patterns,
  which the repository does not implement; a pattern matches when the message contains it.
\<close>

definition matches :: "jsstring list \<Rightarrow> jsstring \<Rightarrow> bool" where
  "matches patterns message = list_ex (\<lambda>p. includes_str message p) patterns"

text \<open>
  Modelled from the spec: the classification of section 4.3 (a), which the repository
  does not implement; the agents are tried in the order TaskFlow, CalendarFlow, InfoFlow
  and the first match wins.
\<close>

definition classify :: "intent_patterns \<Rightarrow> jsstring \<Rightarrow> agent" where
  "classify ps message =
     (if matches (taskflow_patterns ps) message then TaskFlow
      else if matches (calendarflow_patterns ps) message then CalendarFlow
      else if matches (infoflow_patterns ps) message then InfoFlow
      else MindFlow)"

text \<open>
  Modelled from the spec: the table of intent patterns of section 4.2, which the
  repository does not implement, with one pattern for each phrasing it lists.
\<close>

definition spec_patterns :: intent_patterns where
  "spec_patterns =
     \<lparr>taskflow_patterns =
        [str ''add task'', str ''create task'', str ''complete task'', str ''delete task'',
         str ''list tasks'', str ''show tasks''],
      calendarflow_patterns =
        [str ''schedule event'', str ''add event'', str ''what do I have'', str ''list events''],
      infoflow_patterns = [str ''summarize'', str ''explain'']\<rparr>"

record chat_response =
  response :: jsstring
  agent :: agent

text \<open>
  Modelled from the spec: \<open>route\<close>, which the repository does not implement, hands the message to the chosen agent, whose tools may
  fail; section 7 has a failure turned into a text for the user, so that every message
  gets one response. \<open>answer\<close> is the agents' behaviour and \<open>explain\<close> the text for each
  failure; both are parameters.
\<close>

definition route ::
  "intent_patterns \<Rightarrow> (agent \<Rightarrow> jsstring \<Rightarrow> error + jsstring) \<Rightarrow> (error \<Rightarrow> jsstring) \<Rightarrow>
   jsstring \<Rightarrow> chat_response" where
  "route ps answer explain message =
     (let a = classify ps message
      in case answer a message of
           Inr text \<Rightarrow> \<lparr>response = text, agent = a\<rparr>
         | Inl e \<Rightarrow> \<lparr>response = explain e, agent = a\<rparr>)"

section \<open>Properties of the task manager\<close>

lemma map_status_twice:
  "map (\<lambda>t. if task_id t = taskId then t\<lparr>task_status := s\<rparr> else t)
     (map (\<lambda>t. if task_id t = taskId then t\<lparr>task_status := s\<rparr> else t) ts)
   = map (\<lambda>t. if task_id t = taskId then t\<lparr>task_status := s\<rparr> else t) ts"
  by (induction ts) simp_all

lemma map_status_same:
  "\<forall>t \<in> set ts. task_id t = taskId \<longrightarrow> task_status t = s \<Longrightarrow>
   map (\<lambda>t. if task_id t = taskId then t\<lparr>task_status := s\<rparr> else t) ts = ts"
  by (induction ts) auto

lemma map_status_absent:
  "taskId \<notin> set (map task_id ts) \<Longrightarrow>
   map (\<lambda>t. if task_id t = taskId then t\<lparr>task_status := s\<rparr> else t) ts = ts"
  by (induction ts) auto

text \<open>
  C3. Completing a task is idempotent: \<open>updateTaskStatus\<close> with status \<open>completed\<close>
  resolves, and applying it again to the state it gives resolves with that same state.
  When every task of that id is completed already, the operation resolves with the
  state it was given.
\<close>

theorem completeTask_idempotent:
  "(\<exists>st1. updateTaskStatus taskId Completed st = Inr st1 \<and>
          updateTaskStatus taskId Completed st1 = Inr st1) \<and>
   ((\<forall>t \<in> set (tasks st). task_id t = taskId \<longrightarrow> task_status t = Completed) \<longrightarrow>
      updateTaskStatus taskId Completed st = Inr st)"
  by (simp add: updateTaskStatus_def map_status_twice map_status_same)

theorem completeTask_idempotent_witness:
  "map task_status
     (filter (\<lambda>t. task_id t = str ''4'') (tasks (tm_init\<lparr>tasks := mockTasks\<rparr>)))
     = [Completed] \<and>
   updateTaskStatus (str ''4'') Completed (tm_init\<lparr>tasks := mockTasks\<rparr>)
     = Inr (tm_init\<lparr>tasks := mockTasks\<rparr>)"
  using completeTask_idempotent [of "str ''4''" "tm_init\<lparr>tasks := mockTasks\<rparr>"]
  by (simp add: mockTasks_def str_def)

text \<open>
  C4, as stated: completing a task whose id is not in the list reports
  \<open>NotFoundError\<close>. The handler has no such branch: on the mock tasks, the unknown id
  \<open>99\<close> resolves with the list as it was.
\<close>

theorem updateTaskStatus_unknown_id_counterexample:
  "str ''99'' \<notin> set (map task_id mockTasks) \<and>
   updateTaskStatus (str ''99'') Completed (tm_init\<lparr>tasks := mockTasks\<rparr>)
     \<noteq> Inl NotFoundError \<and>
   updateTaskStatus (str ''99'') Completed (tm_init\<lparr>tasks := mockTasks\<rparr>)
     = Inr (tm_init\<lparr>tasks := mockTasks\<rparr>)"
  by (simp add: updateTaskStatus_def mockTasks_def str_def)

text \<open>
  C4, amended: for an id that no task of the list has, \<open>updateTaskStatus\<close> resolves
  without an error and leaves the state, and so the task list, unchanged.
\<close>

theorem updateTaskStatus_unknown_id_silent:
  "taskId \<notin> set (map task_id (tasks st)) \<Longrightarrow> updateTaskStatus taskId s st = Inr st"
  by (simp add: updateTaskStatus_def map_status_absent)

theorem updateTaskStatus_unknown_id_silent_witness:
  "str ''6'' \<notin> set (map task_id (tasks (tm_init\<lparr>tasks := mockTasks\<rparr>))) \<and>
   updateTaskStatus (str ''6'') Completed (tm_init\<lparr>tasks := mockTasks\<rparr>)
     = Inr (tm_init\<lparr>tasks := mockTasks\<rparr>)"
proof -
  have h: "str ''6'' \<notin> set (map task_id (tasks (tm_init\<lparr>tasks := mockTasks\<rparr>)))"
    by (simp add: mockTasks_def str_def)
  show ?thesis
    using h updateTaskStatus_unknown_id_silent [OF h, of Completed] by simp
qed

text \<open>
  C5. With a title that is not blank, \<open>addTask\<close> puts one new task in the list, in front
  of the others; its title is the form's, its status is \<open>pending\<close> and its priority is
  the form's, which is \<open>medium\<close> when the form's priority was left at its default. The
  form is reset to its defaults.
\<close>

theorem addTask_defaults:
  assumes "trim (nt_title (newTask st)) \<noteq> []"
  shows "\<exists>t. addTask now isoNow st
               = Inr (st\<lparr>tasks := t # tasks st, newTask := newTask_init, showAddTask := False\<rparr>) \<and>
             task_title t = nt_title (newTask st) \<and>
             task_status t = Pending \<and>
             task_priority t = nt_priority (newTask st) \<and>
             (nt_priority (newTask st) = nt_priority newTask_init \<longrightarrow> task_priority t = Medium)"
proof -
  let ?t = "\<lparr>task_id = toString now,
             task_title = nt_title (newTask st),
             task_description = Some (nt_description (newTask st)),
             task_priority = nt_priority (newTask st),
             task_status = Pending,
             task_due_date = (if nt_due_date (newTask st) = [] then None
                              else Some (nt_due_date (newTask st))),
             task_created_at = isoNow\<rparr>"
  show ?thesis
    using assms by (intro exI [of _ ?t]) (simp add: addTask_def newTask_init_def)
qed

theorem addTask_defaults_witness:
  "trim (nt_title (newTask (tm_init\<lparr>newTask := newTask_init\<lparr>nt_title := str ''Review reports''\<rparr>\<rparr>))) \<noteq> [] \<and>
   nt_priority (newTask (tm_init\<lparr>newTask := newTask_init\<lparr>nt_title := str ''Review reports''\<rparr>\<rparr>))
     = nt_priority newTask_init \<and>
   (\<exists>t. addTask 1705312800000 (str ''2024-01-15T10:00:00.000Z'')
            (tm_init\<lparr>newTask := newTask_init\<lparr>nt_title := str ''Review reports''\<rparr>\<rparr>)
          = Inr (tm_init\<lparr>tasks := [t], newTask := newTask_init, showAddTask := False\<rparr>) \<and>
        task_title t = str ''Review reports'' \<and> task_status t = Pending \<and>
        task_priority t = Medium)"
proof -
  have h: "trim (nt_title (newTask (tm_init\<lparr>newTask := newTask_init\<lparr>nt_title := str ''Review reports''\<rparr>\<rparr>))) \<noteq> []"
    by (simp add: trim_def str_def is_whitespace_def)
  show ?thesis
    using h addTask_defaults [OF h, of 1705312800000 "str ''2024-01-15T10:00:00.000Z''"]
    by (simp add: tm_init_def newTask_init_def)
qed

lemma fetchTasks_mounted: "fetchTasks tm_init = Inr mounted"
  by (simp add: fetchTasks_def mounted_def)

text \<open>
  C7, as stated: the displayed tasks are in ascending order of \<open>created_at\<close>. On the
  mounted page, two tasks created one hour apart are displayed with the later one
  first, and both before the tasks that were there.
\<close>

theorem displayed_order_counterexample:
  "map_sum id (\<lambda>st'. map task_created_at (filterTasks toLowerCase_ascii st'))
     (addTasks
        [(1705312800000, str ''2024-01-15T10:00:00.000Z'', newTask_init\<lparr>nt_title := str ''Review reports''\<rparr>),
         (1705316400000, str ''2024-01-15T11:00:00.000Z'', newTask_init\<lparr>nt_title := str ''Send reports''\<rparr>)]
        mounted)
   = Inr [str ''2024-01-15T11:00:00.000Z'', str ''2024-01-15T10:00:00.000Z'',
          str ''2024-01-15'', str ''2024-01-14'', str ''2024-01-13'', str ''2024-01-12'',
          str ''2024-01-15''] \<and>
   \<not> sorted [str ''2024-01-15T11:00:00.000Z'', str ''2024-01-15T10:00:00.000Z'',
          str ''2024-01-15'', str ''2024-01-14'', str ''2024-01-13'', str ''2024-01-12'',
          str ''2024-01-15''] \<and>
   \<not> sorted [str ''2024-01-15T11:00:00.000Z'', str ''2024-01-15T10:00:00.000Z'']"
  by (simp add: addTask_def mounted_def tm_init_def mockTasks_def newTask_init_def
      filterTasks_def trim_def is_whitespace_def str_def toString.simps)

lemma filterTasks_as_filter:
  "filterTasks lower st =
     filter (\<lambda>t. (filter_sel st \<noteq> str ''all'' \<longrightarrow> status_name (task_status t) = filter_sel st) \<and>
                 (searchTerm st \<noteq> [] \<longrightarrow>
                    (includes_str (lower (task_title t)) (lower (searchTerm st)) \<or>
                     (case task_description t of None \<Rightarrow> False
                      | Some d \<Rightarrow> includes_str (lower d) (lower (searchTerm st))))))
       (tasks st)"
  by (simp add: filterTasks_def Let_def cong: option.case_cong)

lemma addTask_created:
  "\<exists>created. addTask now isoNow st
       = Inr (st\<lparr>tasks := created @ tasks st,
                 newTask := (if trim (nt_title (newTask st)) = [] then newTask st else newTask_init),
                 showAddTask := (if trim (nt_title (newTask st)) = [] then showAddTask st else False)\<rparr>) \<and>
     map task_created_at created = (if trim (nt_title (newTask st)) = [] then [] else [isoNow])"
proof (cases "trim (nt_title (newTask st)) = []")
  case True
  then show ?thesis by (intro exI [of _ "[]"]) (simp add: addTask_def)
next
  case False
  let ?t = "\<lparr>task_id = toString now,
             task_title = nt_title (newTask st),
             task_description = Some (nt_description (newTask st)),
             task_priority = nt_priority (newTask st),
             task_status = Pending,
             task_due_date = (if nt_due_date (newTask st) = [] then None
                              else Some (nt_due_date (newTask st))),
             task_created_at = isoNow\<rparr>"
  show ?thesis using False
    by (intro exI [of _ "[?t]"]) (simp add: addTask_def newTask_init_def)
qed

lemma addTasks_created:
  "\<exists>st' created. addTasks inputs st = Inr st' \<and>
     tasks st' = created @ tasks st \<and>
     filter_sel st' = filter_sel st \<and> searchTerm st' = searchTerm st \<and>
     map task_created_at created =
       rev (map (fst \<circ> snd) (filter (\<lambda>(n, i, f). trim (nt_title f) \<noteq> []) inputs))"
proof (induction inputs arbitrary: st)
  case Nil
  then show ?case by simp
next
  case (Cons x inputs)
  obtain now isoNow form where x: "x = (now, isoNow, form)" by (cases x) auto
  obtain c1 st1 where 1: "addTask now isoNow (st\<lparr>newTask := form\<rparr>) = Inr st1"
    and 2: "tasks st1 = c1 @ tasks st"
    and f2: "filter_sel st1 = filter_sel st" "searchTerm st1 = searchTerm st"
    and c2b: "map task_created_at c1 = (if trim (nt_title form) = [] then [] else [isoNow])"
    using addTask_created [of now isoNow "st\<lparr>newTask := form\<rparr>"] by auto
  obtain st' c2 where 3: "addTasks inputs st1 = Inr st'"
    and 4: "tasks st' = c2 @ tasks st1"
    and f4: "filter_sel st' = filter_sel st1" "searchTerm st' = searchTerm st1"
    and c4b: "map task_created_at c2 =
       rev (map (fst \<circ> snd) (filter (\<lambda>(n, i, f). trim (nt_title f) \<noteq> []) inputs))"
    using Cons.IH [of st1] by auto
  show ?case
    apply (intro exI [of _ st'] exI [of _ "c2 @ c1"])
    using 1 2 f2 c2b 3 4 f4 c4b by (simp add: x)
qed

text \<open>
  C7, amended: when tasks are created one after the other, with clock readings that do
  not decrease, the sequence produced for display, after any status and search
  filtering, shows the created tasks first, in descending order of \<open>created_at\<close> (the
  newest first), and after them the tasks that were in the list before, in the order
  they had.
\<close>

theorem displayed_newest_first:
  assumes "sorted (map (fst \<circ> snd) inputs)"
  shows "\<exists>st' created. addTasks inputs st = Inr st' \<and>
           tasks st' = created @ tasks st \<and>
           map task_created_at created =
             rev (map (fst \<circ> snd) (filter (\<lambda>(n, i, f). trim (nt_title f) \<noteq> []) inputs)) \<and>
           filterTasks toLowerCase (st'\<lparr>filter_sel := f, searchTerm := q\<rparr>) =
             filterTasks toLowerCase (st\<lparr>tasks := created, filter_sel := f, searchTerm := q\<rparr>) @
             filterTasks toLowerCase (st\<lparr>filter_sel := f, searchTerm := q\<rparr>) \<and>
           sorted (rev (map task_created_at
             (filterTasks toLowerCase (st\<lparr>tasks := created, filter_sel := f, searchTerm := q\<rparr>))))"
proof -
  obtain st' created where 1: "addTasks inputs st = Inr st'"
    and 2: "tasks st' = created @ tasks st"
    and 3: "map task_created_at created =
       rev (map (fst \<circ> snd) (filter (\<lambda>(n, i, f). trim (nt_title f) \<noteq> []) inputs))"
    using addTasks_created by blast
  have split: "filterTasks toLowerCase (st'\<lparr>filter_sel := f, searchTerm := q\<rparr>) =
             filterTasks toLowerCase (st\<lparr>tasks := created, filter_sel := f, searchTerm := q\<rparr>) @
             filterTasks toLowerCase (st\<lparr>filter_sel := f, searchTerm := q\<rparr>)"
    by (simp add: filterTasks_as_filter 2 cong: option.case_cong)
  have "sorted (map (fst \<circ> snd) (filter (\<lambda>(n, i, f). trim (nt_title f) \<noteq> []) inputs))"
    using assms by (simp add: sorted_map sorted_wrt_filter)
  then have "sorted (rev (map task_created_at created))"
    using 3 by simp
  then have srt: "sorted (rev (map task_created_at
             (filterTasks toLowerCase (st\<lparr>tasks := created, filter_sel := f, searchTerm := q\<rparr>))))"
    unfolding filterTasks_as_filter
    by (simp add: sorted_wrt_rev sorted_wrt_map sorted_wrt_filter flip: rev_map)
  show ?thesis
    using 1 2 3 split srt by blast
qed

theorem displayed_newest_first_witness:
  "sorted (map (fst \<circ> snd)
     [(1705312800000, str ''2024-01-15T10:00:00.000Z'', newTask_init\<lparr>nt_title := str ''Review reports''\<rparr>),
      (1705316400000, str ''2024-01-15T11:00:00.000Z'', newTask_init\<lparr>nt_title := str ''Send reports''\<rparr>)]) \<and>
   (\<exists>st'. addTasks
       [(1705312800000, str ''2024-01-15T10:00:00.000Z'', newTask_init\<lparr>nt_title := str ''Review reports''\<rparr>),
        (1705316400000, str ''2024-01-15T11:00:00.000Z'', newTask_init\<lparr>nt_title := str ''Send reports''\<rparr>)]
       mounted = Inr st' \<and>
      map task_title
        (filterTasks toLowerCase_ascii (st'\<lparr>filter_sel := str ''pending'', searchTerm := str ''Reports''\<rparr>))
        = [str ''Send reports'', str ''Review reports'', str ''Review quarterly reports''] \<and>
      map task_created_at
        (filterTasks toLowerCase_ascii (st'\<lparr>filter_sel := str ''pending'', searchTerm := str ''Reports''\<rparr>))
        = [str ''2024-01-15T11:00:00.000Z'', str ''2024-01-15T10:00:00.000Z'', str ''2024-01-15''])"
proof -
  have h: "sorted (map (fst \<circ> snd)
     [(1705312800000, str ''2024-01-15T10:00:00.000Z'', newTask_init\<lparr>nt_title := str ''Review reports''\<rparr>),
      (1705316400000::nat, str ''2024-01-15T11:00:00.000Z'', newTask_init\<lparr>nt_title := str ''Send reports''\<rparr>)])"
    by (simp add: str_def)
  show ?thesis
    using h displayed_newest_first [OF h, where toLowerCase = toLowerCase_ascii
        and st = mounted and f = "str ''pending''" and q = "str ''Reports''"]
    by (simp add: addTask_def mounted_def tm_init_def mockTasks_def newTask_init_def
        filterTasks_def toLowerCase_ascii_def trim_def is_whitespace_def str_def toString.simps)
qed

lemma member_filterTasks: "t \<in> set (filterTasks lower st) \<Longrightarrow> t \<in> set (tasks st)"
  by (simp add: filterTasks_as_filter)

lemma click_result:
  assumes "click lower b t st = Some r"
  shows "t \<in> set (tasks st)" and "button_rendered b t"
    and "r = Inr (st\<lparr>tasks := map (\<lambda>u. if task_id u = task_id t
                                      then u\<lparr>task_status := button_status b t\<rparr> else u)
                               (tasks st)\<rparr>)"
  using assms by (auto simp: click_def updateTaskStatus_def member_filterTasks split: if_splits)

text \<open>
  A run of operations keeps the ids of the list distinct when its creations read
  different clock values, none of which is an id of the list already.
\<close>

lemma addTask_ids:
  "\<exists>st'. addTask now isoNow st = Inr st' \<and>
         map task_id (tasks st') =
           (if trim (nt_title (newTask st)) = [] then [] else [toString now]) @
           map task_id (tasks st)"
  by (simp add: addTask_def)

lemma map_status_ids:
  "map task_id (map (\<lambda>u. if task_id u = i then u\<lparr>task_status := s\<rparr> else u) ts) = map task_id ts"
  by (induction ts) simp_all

lemma ui_step_ids:
  assumes "ui_step lower x st = Some (Inr st')"
  shows "map task_id (tasks st') = map task_id (tasks st) \<or>
         map task_id (tasks st') = hd (created_ids [x]) # map task_id (tasks st) \<and>
         created_ids [x] \<noteq> []"
proof (cases x)
  case (CreateTask now isoNow form)
  with assms have a: "addTask now isoNow (st\<lparr>newTask := form\<rparr>) = Inr st'"
    by (simp split: if_splits)
  obtain st1 where b: "addTask now isoNow (st\<lparr>newTask := form\<rparr>) = Inr st1"
    and c: "map task_id (tasks st1) =
           (if trim (nt_title form) = [] then [] else [toString now]) @ map task_id (tasks st)"
    using addTask_ids [of now isoNow "st\<lparr>newTask := form\<rparr>"] by auto
  from a b have "st1 = st'" by simp
  with c CreateTask show ?thesis by (simp split: if_splits)
next
  case (Click b row)
  with assms have "click lower b (filterTasks lower st ! row) st = Some (Inr st')"
    by (simp split: if_splits)
  from click_result(3) [OF this]
  have "tasks st' = map (\<lambda>u. if task_id u = task_id (filterTasks lower st ! row)
                              then u\<lparr>task_status := button_status b (filterTasks lower st ! row)\<rparr>
                              else u) (tasks st)"
    by simp
  then show ?thesis by (simp add: map_status_ids)
qed


lemma created_ids_Cons: "created_ids (x # ops) = created_ids [x] @ created_ids ops"
  by (cases x) simp_all

lemma ui_run_distinct_ids:
  assumes "distinct (map task_id (tasks st))" and "distinct (created_ids ops)"
    and "set (created_ids ops) \<inter> set (map task_id (tasks st)) = {}"
    and "ui_run lower ops st = Some (Inr st')"
  shows "distinct (map task_id (tasks st'))"
  using assms
proof (induction ops arbitrary: st)
  case Nil
  then show ?case by simp
next
  case (Cons x ops)
  from Cons.prems(4) obtain st1 where s1: "ui_step lower x st = Some (Inr st1)"
    and r1: "ui_run lower ops st1 = Some (Inr st')"
    by (cases "ui_step lower x st") (auto split: sum.splits)
  have d0: "distinct (created_ids [x] @ created_ids ops)"
    using Cons.prems(2) created_ids_Cons [of x ops] by simp
  have i0: "set (created_ids [x] @ created_ids ops) \<inter> set (map task_id (tasks st)) = {}"
    using Cons.prems(3) created_ids_Cons [of x ops] by simp
  have d: "distinct (created_ids ops)" using d0 by simp
  have "distinct (map task_id (tasks st1)) \<and>
        set (created_ids ops) \<inter> set (map task_id (tasks st1)) = {}"
    using ui_step_ids [OF s1]
  proof
    assume e: "map task_id (tasks st1) = map task_id (tasks st)"
    show ?thesis unfolding e using Cons.prems(1) i0 by auto
  next
    assume "map task_id (tasks st1) = hd (created_ids [x]) # map task_id (tasks st) \<and>
         created_ids [x] \<noteq> []"
    then have e: "map task_id (tasks st1) = hd (created_ids [x]) # map task_id (tasks st)"
      and ne: "created_ids [x] \<noteq> []" by simp_all
    have one: "created_ids [x] = [hd (created_ids [x])]"
      using ne by (cases x) simp_all
    have n1: "hd (created_ids [x]) \<notin> set (map task_id (tasks st))"
      using i0 one by (metis Int_iff append_Cons empty_iff list.set_intros(1) set_append UnI1)
    have n2: "hd (created_ids [x]) \<notin> set (created_ids ops)"
      using d0 one by (metis append_Cons append_Nil distinct.simps(2))
    have n3: "set (created_ids ops) \<inter> set (map task_id (tasks st)) = {}"
      using i0 by auto
    show ?thesis unfolding e using Cons.prems(1) n1 n2 n3 by auto
  qed
  then show ?case
    using Cons.IH [OF _ d _ r1] by blast
qed




section \<open>Properties of the calendar\<close>

text \<open>
  C6, as stated: creating an event whose end is earlier than its start fails with
  \<open>ValidationError\<close>. An event from 10:00 to 09:00 of the same day is appended to the
  list, and the promise resolves.
\<close>

theorem addEvent_end_before_start_counterexample:
  "addEvent 1705312800000
     (cal_init\<lparr>newEvent := \<lparr>ne_title = str ''Planning'', ne_description = [],
                             ne_start_time = str ''2024-01-16T10:00'',
                             ne_end_time = str ''2024-01-16T09:00'', ne_location = []\<rparr>\<rparr>)
   = Inr \<lparr>events = [\<lparr>ev_id = str ''1705312800000'', ev_title = str ''Planning'',
                        ev_description = Some [], ev_start_time = str ''2024-01-16T10:00'',
                        ev_end_time = str ''2024-01-16T09:00'', ev_location = Some []\<rparr>],
           showAddEvent = False, newEvent = newEvent_init\<rparr> \<and>
   str ''2024-01-16T09:00'' < str ''2024-01-16T10:00''"
  by (simp add: addEvent_def cal_init_def newEvent_init_def trim_def is_whitespace_def
      str_def toString.simps)

text \<open>
  C6, amended: \<open>addEvent\<close> never fails. It leaves the state as it is when the title is
  blank or the start or the end is empty; in every other case it appends an event with
  the start and the end of the form, whatever their order, and resets the form.
\<close>

theorem addEvent_unvalidated:
  "addEvent now st =
     Inr (if trim (ne_title (newEvent st)) = [] \<or> ne_start_time (newEvent st) = [] \<or>
             ne_end_time (newEvent st) = []
          then st
          else st\<lparr>events := events st @
                      [\<lparr>ev_id = toString now, ev_title = ne_title (newEvent st),
                        ev_description = Some (ne_description (newEvent st)),
                        ev_start_time = ne_start_time (newEvent st),
                        ev_end_time = ne_end_time (newEvent st),
                        ev_location = Some (ne_location (newEvent st))\<rparr>],
                  newEvent := newEvent_init, showAddEvent := False\<rparr>)"
  by (simp add: addEvent_def newEvent_init_def)

section \<open>Properties of the dashboard\<close>

lemma length_filter_remove1:
  "distinct (map f xs) \<Longrightarrow> a \<in> set (map f xs) \<Longrightarrow>
   Suc (length (filter (\<lambda>x. f x \<noteq> a) xs)) = length xs"
proof (induction xs)
  case Nil
  then show ?case by simp
next
  case (Cons x xs)
  show ?case
  proof (cases "f x = a")
    case True
    then have "a \<notin> set (map f xs)" using Cons.prems(1) by auto
    then have "filter (\<lambda>x. f x \<noteq> a) xs = xs" by (auto intro: filter_True)
    then show ?thesis using True by simp
  next
    case False
    then show ?thesis using Cons by auto
  qed
qed

text \<open>
  C9. \<open>handleSuggestionAction\<close> resolves with the list from which the suggestions of
  the given id are filtered out: no suggestion of that id is left, every other
  suggestion stays, in its place and unchanged, and when the ids are distinct and the id
  is in the list exactly one suggestion goes. Running the handler again on the result,
  with any action, gives the result back: the suggestion does not return.
\<close>

theorem handleSuggestionAction_removes:
  "\<exists>log st'. handleSuggestionAction sid action st = Inr (log, st') \<and>
      suggestions st' = filter (\<lambda>s. sug_id s \<noteq> sid) (suggestions st) \<and>
      sid \<notin> set (map sug_id (suggestions st')) \<and>
      (\<forall>s \<in> set (suggestions st). sug_id s \<noteq> sid \<longrightarrow> s \<in> set (suggestions st')) \<and>
      (distinct (map sug_id (suggestions st)) \<and> sid \<in> set (map sug_id (suggestions st)) \<longrightarrow>
         Suc (length (suggestions st')) = length (suggestions st)) \<and>
      (\<forall>action'. \<exists>log'. handleSuggestionAction sid action' st' = Inr (log', st'))"
proof -
  let ?st' = "st\<lparr>suggestions := filter (\<lambda>s. sug_id s \<noteq> sid) (suggestions st)\<rparr>"
  have 1: "handleSuggestionAction sid action st
        = Inr ([Log (str ''Suggestion '' @ toString_int sid @ str '' '' @ action)], ?st')"
    by (simp add: handleSuggestionAction_def)
  have 2: "\<forall>action'. \<exists>log'. handleSuggestionAction sid action' ?st' = Inr (log', ?st')"
    by (simp add: handleSuggestionAction_def)
  have 3: "distinct (map sug_id (suggestions st)) \<and> sid \<in> set (map sug_id (suggestions st)) \<longrightarrow>
         Suc (length (suggestions ?st')) = length (suggestions st)"
    using length_filter_remove1 [of sug_id "suggestions st" sid] by simp
  show ?thesis
    apply (intro exI [of _ "[Log (str ''Suggestion '' @ toString_int sid @ str '' '' @ action)]"]
        exI [of _ ?st'])
    using 1 2 3 by auto
qed

theorem handleSuggestionAction_removes_witness:
  "distinct (map sug_id (suggestions dashboard_loaded)) \<and>
   2 \<in> set (map sug_id (suggestions dashboard_loaded)) \<and>
   (\<exists>log st'. handleSuggestionAction 2 (str ''dismiss'') dashboard_loaded = Inr (log, st') \<and>
      map sug_id (suggestions st') = [1, 3] \<and>
      Suc (length (suggestions st')) = length (suggestions dashboard_loaded))"
  using handleSuggestionAction_removes [of 2 "str ''dismiss''" dashboard_loaded]
  by (auto simp: dashboard_loaded_def mockSuggestions_def)

text \<open>
  C10. With \<open>accept\<close> and with \<open>dismiss\<close> the handler resolves with the same state: the
  same list of suggestions, and \<open>stats\<close> and \<open>loading\<close> as they were. The component holds
  no task and no event. Only the line written to the console differs.
\<close>

theorem accept_dismiss_same_state:
  "\<exists>log1 log2 st'.
      handleSuggestionAction sid (str ''accept'') st = Inr (log1, st') \<and>
      handleSuggestionAction sid (str ''dismiss'') st = Inr (log2, st') \<and>
      stats st' = stats st \<and> dash_loading st' = dash_loading st \<and>
      suggestions st' = filter (\<lambda>s. sug_id s \<noteq> sid) (suggestions st)"
  by (simp add: handleSuggestionAction_def)

section \<open>Properties of the chat\<close>

text \<open>
  C2. When the request fails (\<open>fetch\<close> rejects, the response is not \<open>ok\<close>, or its body
  cannot be read), \<open>sendMessage\<close> resolves, and the conversation has gained the user's
  message and then one message of the agent MindFlow whose content is the fixed
  fallback text. The error goes to the console only.
\<close>

theorem sendMessage_failure_fallback:
  assumes "trim (inputValue st) \<noteq> []" and "\<not> isLoading st" and "chat_request outcome = Inl e"
  shows "sendMessage clock outcome st =
           Inr ([LogError (str ''Error sending message:'') e],
                st\<lparr>messages := messages st @
                     [\<lparr>msg_id = toString (now_user clock), msg_content = inputValue st,
                       msg_sender = User, msg_agent = None, msg_timestamp = date_user clock\<rparr>,
                      \<lparr>msg_id = toString (now_reply clock + 1), msg_content = fallback_text,
                       msg_sender = Agent, msg_agent = Some (str ''MindFlow''),
                       msg_timestamp = date_reply clock\<rparr>],
                   inputValue := [], isLoading := False\<rparr>)"
  using assms by (simp add: sendMessage_def)

theorem sendMessage_failure_fallback_witness:
  "trim (inputValue \<lparr>messages = [], inputValue = str ''Show my tasks'', isLoading = False\<rparr>) \<noteq> [] \<and>
   \<not> isLoading \<lparr>messages = [], inputValue = str ''Show my tasks'', isLoading = False\<rparr> \<and>
   chat_request (FetchResponse False (Inr JsonNull)) = Inl (Error (str ''Failed to get response'')) \<and>
   map msg_content (messages (snd (projr (sendMessage
       \<lparr>now_user = 1705312800000, date_user = 1705312800000,
        now_reply = 1705312800250, date_reply = 1705312800250\<rparr>
       (FetchResponse False (Inr JsonNull))
       \<lparr>messages = [], inputValue = str ''Show my tasks'', isLoading = False\<rparr>))))
     = [str ''Show my tasks'', fallback_text]"
proof -
  have h1: "trim (inputValue \<lparr>messages = [], inputValue = str ''Show my tasks'', isLoading = False\<rparr>) \<noteq> []"
    by (simp add: trim_def str_def is_whitespace_def)
  have h2: "\<not> isLoading \<lparr>messages = [], inputValue = str ''Show my tasks'', isLoading = False\<rparr>"
    by simp
  have h3: "chat_request (FetchResponse False (Inr JsonNull)) = Inl (Error (str ''Failed to get response''))"
    by (simp add: chat_request_def)
  show ?thesis
    using h1 h2 h3 sendMessage_failure_fallback [OF h1 h2 h3,
        of "\<lparr>now_user = 1705312800000, date_user = 1705312800000,
        now_reply = 1705312800250, date_reply = 1705312800250\<rparr>"]
    by simp
qed

section \<open>Properties of the routing\<close>

text \<open>
  C1. \<open>route\<close> gives every message one response, from the agent that \<open>classify\<close>
  chooses, also when that agent fails. A message that matches a TaskFlow pattern goes
  to TaskFlow; one that matches no TaskFlow pattern and a CalendarFlow pattern goes to
  CalendarFlow; then InfoFlow; a message that matches no pattern is answered by
  MindFlow.
\<close>

theorem route_total_deterministic:
  "(\<exists>text. route ps answer explain message = \<lparr>response = text, agent = classify ps message\<rparr>) \<and>
   (matches (taskflow_patterns ps) message \<longrightarrow>
      agent (route ps answer explain message) = TaskFlow) \<and>
   (\<not> matches (taskflow_patterns ps) message \<and> matches (calendarflow_patterns ps) message \<longrightarrow>
      agent (route ps answer explain message) = CalendarFlow) \<and>
   (\<not> matches (taskflow_patterns ps) message \<and> \<not> matches (calendarflow_patterns ps) message \<and>
    matches (infoflow_patterns ps) message \<longrightarrow>
      agent (route ps answer explain message) = InfoFlow) \<and>
   (\<not> matches (taskflow_patterns ps) message \<and> \<not> matches (calendarflow_patterns ps) message \<and>
    \<not> matches (infoflow_patterns ps) message \<longrightarrow>
      agent (route ps answer explain message) = MindFlow)"
proof -
  have a: "agent (route ps answer explain message) = classify ps message"
    by (simp add: route_def Let_def split: sum.split)
  have t: "\<exists>text. route ps answer explain message = \<lparr>response = text, agent = classify ps message\<rparr>"
    by (simp add: route_def Let_def split: sum.split)
  show ?thesis
    unfolding a using t by (simp add: classify_def)
qed

theorem route_total_deterministic_witness:
  "matches (taskflow_patterns spec_patterns) (str ''add task Review reports'') \<and>
   agent (route spec_patterns (\<lambda>a m. Inl UpstreamError) (\<lambda>e. str ''I'm having trouble right now'')
            (str ''add task Review reports'')) = TaskFlow \<and>
   \<not> matches (taskflow_patterns spec_patterns) (str ''what do I have tomorrow?'') \<and>
   matches (calendarflow_patterns spec_patterns) (str ''what do I have tomorrow?'') \<and>
   agent (route spec_patterns (\<lambda>a m. Inl UpstreamError) (\<lambda>e. str ''I'm having trouble right now'')
            (str ''what do I have tomorrow?'')) = CalendarFlow"
proof -
  have h1: "matches (taskflow_patterns spec_patterns) (str ''add task Review reports'')"
    by (simp add: matches_def spec_patterns_def str_def)
  have h2: "\<not> matches (taskflow_patterns spec_patterns) (str ''what do I have tomorrow?'')"
    by (simp add: matches_def spec_patterns_def str_def)
  have h3: "matches (calendarflow_patterns spec_patterns) (str ''what do I have tomorrow?'')"
    by (simp add: matches_def spec_patterns_def str_def)
  show ?thesis
    using h1 h2 h3
      route_total_deterministic [of spec_patterns "\<lambda>a m. Inl UpstreamError"
        "\<lambda>e. str ''I'm having trouble right now''" "str ''add task Review reports''"]
      route_total_deterministic [of spec_patterns "\<lambda>a m. Inl UpstreamError"
        "\<lambda>e. str ''I'm having trouble right now''" "str ''what do I have tomorrow?''"]
    by simp
qed

end
